theory Spec2Isabelle
  imports Main
begin

section \<open>The metadata responder of \<open>app/main.py\<close>\<close>

text \<open>
  The module defines two functions, \<open>_env\<close> and \<open>build_payload\<close>, and one route that
  returns \<open>build_payload()\<close>. Both functions read the process: \<open>os.getenv\<close> reads the
  environment and \<open>datetime.now(timezone.utc)\<close> reads the clock. The embedding threads
  an explicit world through every call and logs each read, in program order.
\<close>

subsection \<open>Python values\<close>

text \<open>
  The payload is a \<open>dict\<close> literal whose values are strings and one list of dicts.
  A dict is kept as an association list, in the order of the literal.
\<close>

datatype pyval = Str string | List "pyval list" | Dict "(string \<times> pyval) list"

fun item :: "pyval \<Rightarrow> string \<Rightarrow> pyval option" where
  "item (Dict kvs) k = map_of kvs k"
| "item (Str s) k = None"
| "item (List vs) k = None"

fun keys :: "pyval \<Rightarrow> string list" where
  "keys (Dict kvs) = map fst kvs"
| "keys (Str s) = []"
| "keys (List vs) = []"

subsection \<open>The clock value and its rendering\<close>

text \<open>
  \<open>datetime.now(timezone.utc)\<close> is an aware datetime in UTC: seven calendar fields and
  the offset zero. \<open>isoformat()\<close> with its default arguments renders it as
  \<open>YYYY-MM-DDTHH:MM:SS\<close>, then \<open>.ffffff\<close> when the microsecond field is not zero, then
  the offset \<open>+00:00\<close>; every field is printed in decimal, padded with zeros to its width.
\<close>

record datetime =
  year :: nat
  month :: nat
  day :: nat
  hour :: nat
  minute :: nat
  second :: nat
  microsecond :: nat

definition digit :: "nat \<Rightarrow> char" where
  "digit n = char_of (48 + n mod 10)"

fun decimal :: "nat \<Rightarrow> string" where
  "decimal n = (if n < 10 then [digit n] else decimal (n div 10) @ [digit n])"

declare decimal.simps [simp del]

definition zpad :: "nat \<Rightarrow> nat \<Rightarrow> string" where
  "zpad w n = replicate (w - length (decimal n)) (CHR ''0'') @ decimal n"

definition isoformat :: "datetime \<Rightarrow> string" where
  "isoformat d =
     zpad 4 (year d) @ ''-'' @ zpad 2 (month d) @ ''-'' @ zpad 2 (day d) @ ''T'' @
     zpad 2 (hour d) @ '':'' @ zpad 2 (minute d) @ '':'' @ zpad 2 (second d) @
     (if microsecond d = 0 then [] else ''.'' @ zpad 6 (microsecond d)) @
     ''+00:00''"

text \<open>The ranges the datetime type of the library keeps its fields in.\<close>

definition valid_datetime :: "datetime \<Rightarrow> bool" where
  "valid_datetime d \<longleftrightarrow>
     1 \<le> year d \<and> year d \<le> 9999 \<and> 1 \<le> month d \<and> month d \<le> 12 \<and>
     1 \<le> day d \<and> day d \<le> 31 \<and> hour d < 24 \<and> minute d < 60 \<and> second d < 60 \<and>
     microsecond d < 1000000"

text \<open>
  The ISO-8601 shape of a UTC timestamp, as the specification's example has it: a
  pattern in which \<open>D\<close> stands for one decimal digit and every other character for
  itself.
\<close>

definition is_digit :: "char \<Rightarrow> bool" where
  "is_digit c \<longleftrightarrow> (48::nat) \<le> of_char c \<and> (of_char c :: nat) \<le> 57"

fun matches :: "string \<Rightarrow> string \<Rightarrow> bool" where
  "matches [] [] = True"
| "matches (p # ps) (c # cs) =
     ((if p = CHR ''D'' then is_digit c else c = p) \<and> matches ps cs)"
| "matches [] (c # cs) = False"
| "matches (p # ps) [] = False"

definition iso8601_utc :: "string \<Rightarrow> bool" where
  "iso8601_utc s \<longleftrightarrow>
     matches ''DDDD-DD-DDTDD:DD:DD+00:00'' s \<or>
     matches ''DDDD-DD-DDTDD:DD:DD.DDDDDD+00:00'' s"

text \<open>
  Reading such a timestamp back, as the specification's test does when it parses
  \<open>buildTime\<close>: the fields are the decimal numbers at their fixed places, and the
  fraction is there when the string has the longer of the two shapes.
\<close>

definition digit_value :: "char \<Rightarrow> nat" where
  "digit_value c = of_char c - 48"

definition number :: "string \<Rightarrow> nat" where
  "number cs = foldl (\<lambda>a c. 10 * a + digit_value c) 0 cs"

definition fromisoformat :: "string \<Rightarrow> datetime option" where
  "fromisoformat s =
     (if iso8601_utc s then
        Some \<lparr>year = number (take 4 s),
              month = number (take 2 (drop 5 s)),
              day = number (take 2 (drop 8 s)),
              hour = number (take 2 (drop 11 s)),
              minute = number (take 2 (drop 14 s)),
              second = number (take 2 (drop 17 s)),
              microsecond = (if length s = 32 then number (take 6 (drop 20 s)) else 0)\<rparr>
      else None)"

subsection \<open>The world: environment, clock and the log of reads\<close>

datatype event = Now | Getenv string

text \<open>
  \<open>environ\<close> is the process environment (\<open>os.environ\<close>), \<open>clock\<close> gives the instant the
  \<open>n\<close>-th read of the system clock returns, and \<open>trace\<close> is the log of the reads done so
  far, oldest first.
\<close>

record world =
  environ :: "string \<rightharpoonup> string"
  clock :: "nat \<Rightarrow> datetime"
  trace :: "event list"

definition ticks :: "world \<Rightarrow> nat" where
  "ticks w = length (filter (\<lambda>e. e = Now) (trace w))"

definition now_utc :: "world \<Rightarrow> datetime \<times> world" where
  "now_utc w = (clock w (ticks w), w\<lparr>trace := trace w @ [Now]\<rparr>)"

definition getenv :: "string \<Rightarrow> world \<Rightarrow> string option \<times> world" where
  "getenv key w = (environ w key, w\<lparr>trace := trace w @ [Getenv key]\<rparr>)"

subsection \<open>The two functions of the module\<close>

text \<open>
  \<open>_env(key, fallback)\<close>: \<open>value = os.getenv(key)\<close>, then
  \<open>return value if value else fallback\<close>. \<open>None\<close> and the empty string are the two
  falsy results of \<open>os.getenv\<close>. The \<open>import os\<close> in the body binds a local name to the
  module, which is loaded already.
\<close>

definition underscore_env :: "string \<Rightarrow> string \<Rightarrow> world \<Rightarrow> string \<times> world" where
  "underscore_env key fallback w =
     (case getenv key w of
        (val, w') \<Rightarrow>
          ((case val of
              None \<Rightarrow> fallback
            | Some s \<Rightarrow> if s \<noteq> [] then s else fallback), w'))"

text \<open>
  \<open>build_payload()\<close>. Python evaluates the arguments of a call before the call, so the
  first statement reads the clock and renders it, and only then calls \<open>_env\<close>.
\<close>

definition dependencies :: pyval where
  "dependencies = List
     [Dict [(''name'', Str ''fastapi''), (''version'', Str ''0.115.6'')],
      Dict [(''name'', Str ''uvicorn''), (''version'', Str ''0.32.1'')],
      Dict [(''name'', Str ''httpx''), (''version'', Str ''0.27.2'')]]"

definition build_payload :: "world \<Rightarrow> pyval \<times> world" where
  "build_payload w0 =
     (case now_utc w0 of (t, w1) \<Rightarrow>
      case underscore_env ''BUILD_TIME'' (isoformat t) w1 of (build_time, w2) \<Rightarrow>
      case underscore_env ''GIT_SHA'' ''dev-snapshot'' w2 of (git_sha, w3) \<Rightarrow>
      case underscore_env ''SERVICE_VERSION'' ''0.0.0'' w3 of (version, w4) \<Rightarrow>
        (Dict
           [(''serviceName'', Str ''Invoice API''),
            (''techStack'', Str ''Python 3.11 + FastAPI''),
            (''buildTime'', Str build_time),
            (''gitSha'', Str git_sha),
            (''buildVersion'', Str version),
            (''dependencies'', dependencies)], w4))"

subsection \<open>The documented shape of the response\<close>

text \<open>
  The shape the specification's data model gives the record (section 3 and the body
  shown for \<open>GET /info\<close>): six keys in this order, five of them strings, and
  \<open>dependencies\<close> a sequence of records with a string \<open>name\<close> and a string \<open>version\<close>.
  This predicate follows the specification's words, not the code.
\<close>

fun is_str :: "pyval option \<Rightarrow> bool" where
  "is_str (Some (Str s)) = True"
| "is_str (Some (List vs)) = False"
| "is_str (Some (Dict kvs)) = False"
| "is_str None = False"

definition is_dependency :: "pyval \<Rightarrow> bool" where
  "is_dependency v \<longleftrightarrow>
     keys v = [''name'', ''version''] \<and> is_str (item v ''name'') \<and> is_str (item v ''version'')"

fun is_dependency_list :: "pyval option \<Rightarrow> bool" where
  "is_dependency_list (Some (List vs)) = list_all is_dependency vs"
| "is_dependency_list (Some (Str s)) = False"
| "is_dependency_list (Some (Dict kvs)) = False"
| "is_dependency_list None = False"

definition is_build_info :: "pyval \<Rightarrow> bool" where
  "is_build_info v \<longleftrightarrow>
     keys v = [''serviceName'', ''techStack'', ''buildTime'', ''gitSha'', ''buildVersion'',
               ''dependencies''] \<and>
     is_str (item v ''serviceName'') \<and> is_str (item v ''techStack'') \<and>
     is_str (item v ''buildTime'') \<and> is_str (item v ''gitSha'') \<and>
     is_str (item v ''buildVersion'') \<and> is_dependency_list (item v ''dependencies'')"

subsection \<open>A sample clock for the concrete instances\<close>

text \<open>One second passes between two reads, starting at midnight of 1 January 2024.\<close>

abbreviation sample_clock :: "nat \<Rightarrow> datetime" where
  "sample_clock \<equiv> \<lambda>n. \<lparr>year = 2024, month = 1, day = 1, hour = 0, minute = 0,
     second = n mod 60, microsecond = 0\<rparr>"

section \<open>Rendering of the clock value\<close>

lemma digit_zero: "digit 0 = CHR ''0''"
  by code_simp

lemma is_digit_digit: "is_digit (digit n)"
  by (simp add: is_digit_def digit_def)

lemma decimal1: "n < 10 \<Longrightarrow> decimal n = [digit n]"
  by (simp add: decimal.simps[of n])

lemma decimal_step: "\<not> n < 10 \<Longrightarrow> decimal n = decimal (n div 10) @ [digit n]"
  by (simp add: decimal.simps[of n])

lemma decimal2: "n < 100 \<Longrightarrow> \<not> n < 10 \<Longrightarrow> decimal n = [digit (n div 10), digit n]"
  by (simp add: decimal_step decimal1)

lemma decimal3:
  assumes "n < 1000" "\<not> n < 100"
  shows "decimal n = [digit (n div 100), digit (n div 10), digit n]"
proof -
  have "n div 10 < 100" "\<not> n div 10 < 10" "\<not> n < 10" using assms by auto
  then show ?thesis by (simp add: decimal_step[of n] decimal2 div_mult2_eq[symmetric])
qed

lemma decimal4:
  assumes "n < 10000" "\<not> n < 1000"
  shows "decimal n = [digit (n div 1000), digit (n div 100), digit (n div 10), digit n]"
proof -
  have "n div 10 < 1000" "\<not> n div 10 < 100" "\<not> n < 10" using assms by auto
  then show ?thesis by (simp add: decimal_step[of n] decimal3 div_mult2_eq[symmetric])
qed

lemma decimal5:
  assumes "n < 100000" "\<not> n < 10000"
  shows "decimal n =
    [digit (n div 10000), digit (n div 1000), digit (n div 100), digit (n div 10), digit n]"
proof -
  have "n div 10 < 10000" "\<not> n div 10 < 1000" "\<not> n < 10" using assms by auto
  then show ?thesis by (simp add: decimal_step[of n] decimal4 div_mult2_eq[symmetric])
qed

lemma decimal6:
  assumes "n < 1000000" "\<not> n < 100000"
  shows "decimal n =
    [digit (n div 100000), digit (n div 10000), digit (n div 1000), digit (n div 100),
     digit (n div 10), digit n]"
proof -
  have "n div 10 < 100000" "\<not> n div 10 < 10000" "\<not> n < 10" using assms by auto
  then show ?thesis by (simp add: decimal_step[of n] decimal5 div_mult2_eq[symmetric])
qed

lemma replicate_small:
  "replicate 2 c = [c, c]"
  "replicate 3 c = [c, c, c]"
  "replicate 4 c = [c, c, c, c]"
  "replicate 5 c = [c, c, c, c, c]"
  by (simp_all add: numeral_eq_Suc)

text \<open>A field below its width's power of ten is printed with exactly that many digits.\<close>

lemma zpad2:
  assumes "n < 100"
  shows "zpad 2 n = [digit (n div 10), digit n]"
proof (cases "n < 10")
  case True
  then show ?thesis by (simp add: zpad_def decimal1 digit_zero)
next
  case False
  with assms show ?thesis by (simp add: zpad_def decimal2)
qed

lemma zpad4:
  assumes "n < 10000"
  shows "zpad 4 n = [digit (n div 1000), digit (n div 100), digit (n div 10), digit n]"
proof -
  consider "n < 10" | "\<not> n < 10" "n < 100" | "\<not> n < 100" "n < 1000" | "\<not> n < 1000"
    by linarith
  then show ?thesis
  proof cases
    case 1
    then show ?thesis by (simp add: zpad_def decimal1 digit_zero replicate_small)
  next
    case 2
    then show ?thesis by (simp add: zpad_def decimal2 digit_zero replicate_small)
  next
    case 3
    then show ?thesis by (simp add: zpad_def decimal3 digit_zero)
  next
    case 4
    with assms show ?thesis by (simp add: zpad_def decimal4)
  qed
qed

lemma zpad6:
  assumes "n < 1000000"
  shows "zpad 6 n =
    [digit (n div 100000), digit (n div 10000), digit (n div 1000), digit (n div 100),
     digit (n div 10), digit n]"
proof -
  consider "n < 10" | "\<not> n < 10" "n < 100" | "\<not> n < 100" "n < 1000"
    | "\<not> n < 1000" "n < 10000" | "\<not> n < 10000" "n < 100000" | "\<not> n < 100000"
    by linarith
  then show ?thesis
  proof cases
    case 1
    then show ?thesis by (simp add: zpad_def decimal1 digit_zero replicate_small)
  next
    case 2
    then show ?thesis by (simp add: zpad_def decimal2 digit_zero replicate_small)
  next
    case 3
    then show ?thesis by (simp add: zpad_def decimal3 digit_zero replicate_small)
  next
    case 4
    then show ?thesis by (simp add: zpad_def decimal4 digit_zero replicate_small)
  next
    case 5
    then show ?thesis by (simp add: zpad_def decimal5 digit_zero)
  next
    case 6
    with assms show ?thesis by (simp add: zpad_def decimal6)
  qed
qed

text \<open>The rendering of a datetime whose fields are in range, character by character.\<close>

lemma isoformat_whole_second:
  assumes "valid_datetime d" "microsecond d = 0"
  shows "isoformat d =
    [digit (year d div 1000), digit (year d div 100), digit (year d div 10), digit (year d),
     CHR ''-'', digit (month d div 10), digit (month d),
     CHR ''-'', digit (day d div 10), digit (day d),
     CHR ''T'', digit (hour d div 10), digit (hour d),
     CHR '':'', digit (minute d div 10), digit (minute d),
     CHR '':'', digit (second d div 10), digit (second d)] @ ''+00:00''"
proof -
  have "year d < 10000" "month d < 100" "day d < 100" "hour d < 100" "minute d < 100"
    "second d < 100"
    using assms by (simp_all add: valid_datetime_def)
  then show ?thesis
    using assms(2) by (simp add: isoformat_def zpad2 zpad4)
qed

lemma isoformat_fraction:
  assumes "valid_datetime d" "microsecond d \<noteq> 0"
  shows "isoformat d =
    [digit (year d div 1000), digit (year d div 100), digit (year d div 10), digit (year d),
     CHR ''-'', digit (month d div 10), digit (month d),
     CHR ''-'', digit (day d div 10), digit (day d),
     CHR ''T'', digit (hour d div 10), digit (hour d),
     CHR '':'', digit (minute d div 10), digit (minute d),
     CHR '':'', digit (second d div 10), digit (second d),
     CHR ''.'', digit (microsecond d div 100000), digit (microsecond d div 10000),
     digit (microsecond d div 1000), digit (microsecond d div 100),
     digit (microsecond d div 10), digit (microsecond d)] @ ''+00:00''"
proof -
  have "year d < 10000" "month d < 100" "day d < 100" "hour d < 100" "minute d < 100"
    "second d < 100" "microsecond d < 1000000"
    using assms by (simp_all add: valid_datetime_def)
  then show ?thesis
    using assms(2) by (simp add: isoformat_def zpad2 zpad4 zpad6)
qed

lemma isoformat_iso8601:
  assumes "valid_datetime d"
  shows "iso8601_utc (isoformat d)"
proof (cases "microsecond d = 0")
  case True
  show ?thesis
    unfolding isoformat_whole_second[OF assms True] iso8601_utc_def
    by (simp add: is_digit_digit)
next
  case False
  show ?thesis
    unfolding isoformat_fraction[OF assms False] iso8601_utc_def
    by (simp add: is_digit_digit)
qed

text \<open>Reading a rendered datetime back gives the datetime.\<close>

lemma digit_value_digit: "digit_value (digit n) = n mod 10"
  by (simp add: digit_value_def digit_def)

lemma number_snoc: "number (cs @ [c]) = 10 * number cs + digit_value c"
  by (simp add: number_def)

lemma number1: "n < 10 \<Longrightarrow> number [digit n] = n"
  by (simp add: number_def digit_value_digit)

lemma number2:
  assumes "n < 100"
  shows "number [digit (n div 10), digit n] = n"
proof -
  have "number [digit (n div 10)] = n div 10"
    using assms by (simp add: number1)
  then show ?thesis
    using number_snoc[of "[digit (n div 10)]" "digit n"] by (simp add: digit_value_digit)
qed

lemma number3:
  assumes "n < 1000"
  shows "number [digit (n div 100), digit (n div 10), digit n] = n"
proof -
  have "number [digit (n div 10 div 10), digit (n div 10)] = n div 10"
    using assms by (simp add: number2)
  then have "number [digit (n div 100), digit (n div 10)] = n div 10"
    by (simp add: div_mult2_eq[symmetric])
  then show ?thesis
    using number_snoc[of "[digit (n div 100), digit (n div 10)]" "digit n"]
    by (simp add: digit_value_digit)
qed

lemma number4:
  assumes "n < 10000"
  shows "number [digit (n div 1000), digit (n div 100), digit (n div 10), digit n] = n"
proof -
  have "number [digit (n div 10 div 100), digit (n div 10 div 10), digit (n div 10)] = n div 10"
    using assms by (simp add: number3)
  then have "number [digit (n div 1000), digit (n div 100), digit (n div 10)] = n div 10"
    by (simp add: div_mult2_eq[symmetric])
  then show ?thesis
    using number_snoc[of "[digit (n div 1000), digit (n div 100), digit (n div 10)]" "digit n"]
    by (simp add: digit_value_digit)
qed

lemma number5:
  assumes "n < 100000"
  shows "number [digit (n div 10000), digit (n div 1000), digit (n div 100), digit (n div 10),
                 digit n] = n"
proof -
  have "number [digit (n div 10 div 1000), digit (n div 10 div 100), digit (n div 10 div 10),
                digit (n div 10)] = n div 10"
    using assms by (simp add: number4)
  then have "number [digit (n div 10000), digit (n div 1000), digit (n div 100),
                     digit (n div 10)] = n div 10"
    by (simp add: div_mult2_eq[symmetric])
  then show ?thesis
    using number_snoc[of "[digit (n div 10000), digit (n div 1000), digit (n div 100),
                           digit (n div 10)]" "digit n"]
    by (simp add: digit_value_digit)
qed

lemma number6:
  assumes "n < 1000000"
  shows "number [digit (n div 100000), digit (n div 10000), digit (n div 1000),
                 digit (n div 100), digit (n div 10), digit n] = n"
proof -
  have "number [digit (n div 10 div 10000), digit (n div 10 div 1000), digit (n div 10 div 100),
                digit (n div 10 div 10), digit (n div 10)] = n div 10"
    using assms by (simp add: number5)
  then have "number [digit (n div 100000), digit (n div 10000), digit (n div 1000),
                     digit (n div 100), digit (n div 10)] = n div 10"
    by (simp add: div_mult2_eq[symmetric])
  then show ?thesis
    using number_snoc[of "[digit (n div 100000), digit (n div 10000), digit (n div 1000),
                           digit (n div 100), digit (n div 10)]" "digit n"]
    by (simp add: digit_value_digit)
qed

lemma fromisoformat_isoformat:
  assumes "valid_datetime d"
  shows "fromisoformat (isoformat d) = Some d"
proof -
  have r: "year d < 10000" "month d < 100" "day d < 100" "hour d < 100" "minute d < 100"
    "second d < 100" "microsecond d < 1000000"
    using assms by (simp_all add: valid_datetime_def)
  have shape: "iso8601_utc (isoformat d)"
    using assms by (rule isoformat_iso8601)
  show ?thesis
  proof (cases "microsecond d = 0")
    case True
    show ?thesis
      using shape r True unfolding fromisoformat_def isoformat_whole_second[OF assms True]
      by (simp add: number2 number4)
  next
    case False
    show ?thesis
      using shape r unfolding fromisoformat_def isoformat_fraction[OF assms False]
      by (simp add: number2 number4 number6)
  qed
qed

lemma isoformat_sample_0: "isoformat (sample_clock 0) = ''2024-01-01T00:00:00+00:00''"
  by code_simp

lemma isoformat_sample_1: "isoformat (sample_clock 1) = ''2024-01-01T00:00:01+00:00''"
  by code_simp

section \<open>What the two functions compute\<close>

lemma underscore_env_eq:
  "underscore_env key fallback w =
     ((case environ w key of None \<Rightarrow> fallback | Some s \<Rightarrow> if s \<noteq> [] then s else fallback),
      w\<lparr>trace := trace w @ [Getenv key]\<rparr>)"
  by (simp add: underscore_env_def getenv_def)

lemma build_payload_snd:
  "snd (build_payload w) =
     w\<lparr>trace := trace w @
       [Now, Getenv ''BUILD_TIME'', Getenv ''GIT_SHA'', Getenv ''SERVICE_VERSION'']\<rparr>"
  by (simp add: build_payload_def now_utc_def underscore_env_eq)

lemma build_payload_fst:
  "fst (build_payload w) =
     Dict
       [(''serviceName'', Str ''Invoice API''),
        (''techStack'', Str ''Python 3.11 + FastAPI''),
        (''buildTime'', Str (fst (underscore_env ''BUILD_TIME'' (isoformat (clock w (ticks w))) w))),
        (''gitSha'', Str (fst (underscore_env ''GIT_SHA'' ''dev-snapshot'' w))),
        (''buildVersion'', Str (fst (underscore_env ''SERVICE_VERSION'' ''0.0.0'' w))),
        (''dependencies'', dependencies)]"
  by (simp add: build_payload_def now_utc_def underscore_env_eq)

lemma ticks_build_payload: "ticks (snd (build_payload w)) = Suc (ticks w)"
  by (simp add: build_payload_snd ticks_def)

lemma build_time_item:
  "item (fst (build_payload w)) ''buildTime'' =
     Some (Str (case environ w ''BUILD_TIME'' of
                  None \<Rightarrow> isoformat (clock w (ticks w))
                | Some s \<Rightarrow> if s \<noteq> [] then s else isoformat (clock w (ticks w))))"
  by (simp add: build_payload_fst underscore_env_eq)

lemma git_sha_item:
  "item (fst (build_payload w)) ''gitSha'' =
     Some (Str (case environ w ''GIT_SHA'' of
                  None \<Rightarrow> ''dev-snapshot''
                | Some s \<Rightarrow> if s \<noteq> [] then s else ''dev-snapshot''))"
  by (simp add: build_payload_fst underscore_env_eq)

lemma build_version_item:
  "item (fst (build_payload w)) ''buildVersion'' =
     Some (Str (case environ w ''SERVICE_VERSION'' of
                  None \<Rightarrow> ''0.0.0''
                | Some s \<Rightarrow> if s \<noteq> [] then s else ''0.0.0''))"
  by (simp add: build_payload_fst underscore_env_eq)

section \<open>The claims\<close>

text \<open>
  C1. In every environment in which \<open>GIT_SHA\<close> and \<open>SERVICE_VERSION\<close> are set to
  non-empty strings \<open>g\<close> and \<open>v\<close>, the record \<open>build_payload\<close> returns has \<open>gitSha\<close>
  equal to \<open>g\<close> and \<open>buildVersion\<close> equal to \<open>v\<close>.
\<close>

theorem build_payload_set_sha_version:
  assumes "environ w ''GIT_SHA'' = Some g" and "g \<noteq> []"
    and "environ w ''SERVICE_VERSION'' = Some v" and "v \<noteq> []"
  shows "item (fst (build_payload w)) ''gitSha'' = Some (Str g) \<and>
         item (fst (build_payload w)) ''buildVersion'' = Some (Str v)"
  using assms by (simp add: git_sha_item build_version_item)

theorem build_payload_set_sha_version_witness:
  "environ \<lparr>environ = [''GIT_SHA'' \<mapsto> ''abc123'', ''SERVICE_VERSION'' \<mapsto> ''1.2.3''],
            clock = sample_clock, trace = []\<rparr> ''GIT_SHA'' = Some ''abc123'' \<and>
   ''abc123'' \<noteq> [] \<and>
   environ \<lparr>environ = [''GIT_SHA'' \<mapsto> ''abc123'', ''SERVICE_VERSION'' \<mapsto> ''1.2.3''],
            clock = sample_clock, trace = []\<rparr> ''SERVICE_VERSION'' = Some ''1.2.3'' \<and>
   ''1.2.3'' \<noteq> [] \<and>
   item (fst (build_payload
     \<lparr>environ = [''GIT_SHA'' \<mapsto> ''abc123'', ''SERVICE_VERSION'' \<mapsto> ''1.2.3''],
      clock = sample_clock, trace = []\<rparr>)) ''gitSha'' = Some (Str ''abc123'') \<and>
   item (fst (build_payload
     \<lparr>environ = [''GIT_SHA'' \<mapsto> ''abc123'', ''SERVICE_VERSION'' \<mapsto> ''1.2.3''],
      clock = sample_clock, trace = []\<rparr>)) ''buildVersion'' = Some (Str ''1.2.3'')"
  using build_payload_set_sha_version
    [of "\<lparr>environ = [''GIT_SHA'' \<mapsto> ''abc123'', ''SERVICE_VERSION'' \<mapsto> ''1.2.3''],
          clock = sample_clock, trace = []\<rparr>" "''abc123''" "''1.2.3''"]
  by simp

text \<open>
  C2. In every environment in which \<open>GIT_SHA\<close> is unset or the empty string,
  \<open>gitSha\<close> is \<open>dev-snapshot\<close>; in every environment in which \<open>SERVICE_VERSION\<close> is
  unset or the empty string, \<open>buildVersion\<close> is \<open>0.0.0\<close>.
\<close>

theorem build_payload_fallbacks:
  "(environ w ''GIT_SHA'' = None \<or> environ w ''GIT_SHA'' = Some [] \<longrightarrow>
      item (fst (build_payload w)) ''gitSha'' = Some (Str ''dev-snapshot'')) \<and>
   (environ w ''SERVICE_VERSION'' = None \<or> environ w ''SERVICE_VERSION'' = Some [] \<longrightarrow>
      item (fst (build_payload w)) ''buildVersion'' = Some (Str ''0.0.0''))"
  by (auto simp add: git_sha_item build_version_item)

theorem build_payload_fallbacks_witness:
  "environ \<lparr>environ = [''SERVICE_VERSION'' \<mapsto> []], clock = sample_clock, trace = []\<rparr>
     ''GIT_SHA'' = None \<and>
   environ \<lparr>environ = [''SERVICE_VERSION'' \<mapsto> []], clock = sample_clock, trace = []\<rparr>
     ''SERVICE_VERSION'' = Some [] \<and>
   item (fst (build_payload
     \<lparr>environ = [''SERVICE_VERSION'' \<mapsto> []], clock = sample_clock, trace = []\<rparr>))
     ''gitSha'' = Some (Str ''dev-snapshot'') \<and>
   item (fst (build_payload
     \<lparr>environ = [''SERVICE_VERSION'' \<mapsto> []], clock = sample_clock, trace = []\<rparr>))
     ''buildVersion'' = Some (Str ''0.0.0'')"
  using build_payload_fallbacks
    [of "\<lparr>environ = [''SERVICE_VERSION'' \<mapsto> []], clock = sample_clock, trace = []\<rparr>"]
  by simp

text \<open>
  C3. In every environment in which \<open>BUILD_TIME\<close> is unset, \<open>buildTime\<close> is the
  ISO-8601 rendering of the instant the clock shows when the call reads it: the string
  has the ISO-8601 shape and reads back as that instant whenever the instant is a
  datetime of the library. It is computed on each call: a second call renders the
  clock's next reading, not the first one.
\<close>

theorem build_payload_build_time_unset:
  assumes "environ w ''BUILD_TIME'' = None"
  shows "item (fst (build_payload w)) ''buildTime'' =
           Some (Str (isoformat (clock w (ticks w)))) \<and>
         (valid_datetime (clock w (ticks w)) \<longrightarrow>
            iso8601_utc (isoformat (clock w (ticks w))) \<and>
            fromisoformat (isoformat (clock w (ticks w))) = Some (clock w (ticks w))) \<and>
         item (fst (build_payload (snd (build_payload w)))) ''buildTime'' =
           Some (Str (isoformat (clock w (Suc (ticks w)))))"
proof -
  have first: "item (fst (build_payload w)) ''buildTime'' =
      Some (Str (isoformat (clock w (ticks w))))"
    using assms by (simp add: build_time_item)
  have "environ (snd (build_payload w)) ''BUILD_TIME'' = None"
    and "clock (snd (build_payload w)) = clock w"
    using assms by (simp_all add: build_payload_snd)
  then have second: "item (fst (build_payload (snd (build_payload w)))) ''buildTime'' =
      Some (Str (isoformat (clock w (Suc (ticks w)))))"
    by (simp add: build_time_item[of "snd (build_payload w)"] ticks_build_payload)
  from first second show ?thesis
    by (simp add: isoformat_iso8601 fromisoformat_isoformat)
qed

theorem build_payload_build_time_unset_witness:
  "environ \<lparr>environ = [''GIT_SHA'' \<mapsto> ''abc123''], clock = sample_clock, trace = []\<rparr>
     ''BUILD_TIME'' = None \<and>
   valid_datetime (sample_clock 0) \<and>
   item (fst (build_payload
     \<lparr>environ = [''GIT_SHA'' \<mapsto> ''abc123''], clock = sample_clock, trace = []\<rparr>))
     ''buildTime'' = Some (Str ''2024-01-01T00:00:00+00:00'') \<and>
   iso8601_utc ''2024-01-01T00:00:00+00:00'' \<and>
   fromisoformat ''2024-01-01T00:00:00+00:00'' = Some (sample_clock 0) \<and>
   item (fst (build_payload (snd (build_payload
     \<lparr>environ = [''GIT_SHA'' \<mapsto> ''abc123''], clock = sample_clock, trace = []\<rparr>))))
     ''buildTime'' = Some (Str ''2024-01-01T00:00:01+00:00'')"
proof -
  have v: "valid_datetime (sample_clock 0)"
    by (simp add: valid_datetime_def)
  show ?thesis
    using v build_payload_build_time_unset
      [of "\<lparr>environ = [''GIT_SHA'' \<mapsto> ''abc123''], clock = sample_clock, trace = []\<rparr>"]
      isoformat_sample_0 isoformat_sample_1
    by (simp add: ticks_def)
qed

text \<open>
  C4. In every environment the record has the fixed shape: its six keys, \<open>serviceName\<close>
  equal to \<open>Invoice API\<close>, \<open>techStack\<close> equal to \<open>Python 3.11 + FastAPI\<close>, and
  \<open>dependencies\<close> equal to the fixed sequence of three records, whatever any environment
  variable holds.
\<close>

theorem build_payload_fixed_fields:
  "keys (fst (build_payload w)) =
     [''serviceName'', ''techStack'', ''buildTime'', ''gitSha'', ''buildVersion'',
      ''dependencies''] \<and>
   item (fst (build_payload w)) ''serviceName'' = Some (Str ''Invoice API'') \<and>
   item (fst (build_payload w)) ''techStack'' = Some (Str ''Python 3.11 + FastAPI'') \<and>
   item (fst (build_payload w)) ''dependencies'' = Some (List
     [Dict [(''name'', Str ''fastapi''), (''version'', Str ''0.115.6'')],
      Dict [(''name'', Str ''uvicorn''), (''version'', Str ''0.32.1'')],
      Dict [(''name'', Str ''httpx''), (''version'', Str ''0.27.2'')]])"
  by (simp add: build_payload_fst dependencies_def)

text \<open>
  C5. In every environment in which \<open>BUILD_TIME\<close> is set to a non-empty string, two
  calls under that environment return the same record, whatever the clock shows at
  each call and whatever was read before: two worlds with the same environment, and
  a call followed by a second one.
\<close>

theorem build_payload_deterministic:
  assumes "environ w1 ''BUILD_TIME'' = Some b" and "b \<noteq> []"
    and "environ w2 = environ w1"
  shows "fst (build_payload w2) = fst (build_payload w1) \<and>
         fst (build_payload (snd (build_payload w1))) = fst (build_payload w1)"
  using assms by (simp add: build_payload_fst underscore_env_eq build_payload_snd)

theorem build_payload_deterministic_witness:
  "environ \<lparr>environ = [''BUILD_TIME'' \<mapsto> ''2024-01-01T00:00:00Z''],
            clock = sample_clock, trace = []\<rparr> ''BUILD_TIME'' =
     Some ''2024-01-01T00:00:00Z'' \<and>
   ''2024-01-01T00:00:00Z'' \<noteq> [] \<and>
   environ \<lparr>environ = [''BUILD_TIME'' \<mapsto> ''2024-01-01T00:00:00Z''],
            clock = (\<lambda>n. sample_clock (n + 30)), trace = [Now]\<rparr> =
     environ \<lparr>environ = [''BUILD_TIME'' \<mapsto> ''2024-01-01T00:00:00Z''],
              clock = sample_clock, trace = []\<rparr> \<and>
   clock \<lparr>environ = [''BUILD_TIME'' \<mapsto> ''2024-01-01T00:00:00Z''],
          clock = (\<lambda>n. sample_clock (n + 30)), trace = [Now]\<rparr> 1 \<noteq> sample_clock 0 \<and>
   fst (build_payload
     \<lparr>environ = [''BUILD_TIME'' \<mapsto> ''2024-01-01T00:00:00Z''],
      clock = (\<lambda>n. sample_clock (n + 30)), trace = [Now]\<rparr>) =
   fst (build_payload
     \<lparr>environ = [''BUILD_TIME'' \<mapsto> ''2024-01-01T00:00:00Z''],
      clock = sample_clock, trace = []\<rparr>)"
  using build_payload_deterministic
    [of "\<lparr>environ = [''BUILD_TIME'' \<mapsto> ''2024-01-01T00:00:00Z''],
          clock = sample_clock, trace = []\<rparr>"
        "''2024-01-01T00:00:00Z''"
        "\<lparr>environ = [''BUILD_TIME'' \<mapsto> ''2024-01-01T00:00:00Z''],
          clock = (\<lambda>n. sample_clock (n + 30)), trace = [Now]\<rparr>"]
  by simp

text \<open>
  C6. In the environment that sets exactly \<open>GIT_SHA\<close> to \<open>abc123\<close>, \<open>SERVICE_VERSION\<close>
  to \<open>1.2.3\<close> and \<open>BUILD_TIME\<close> to \<open>2024-01-01T00:00:00Z\<close>, \<open>build_payload\<close> returns
  exactly the record of the specification's scenario, whatever the clock shows and
  whatever was read before.
\<close>

theorem build_payload_scenario:
  "fst (build_payload
     \<lparr>environ = [''GIT_SHA'' \<mapsto> ''abc123'', ''SERVICE_VERSION'' \<mapsto> ''1.2.3'',
                 ''BUILD_TIME'' \<mapsto> ''2024-01-01T00:00:00Z''],
      clock = c, trace = tr\<rparr>) =
   Dict
     [(''serviceName'', Str ''Invoice API''),
      (''techStack'', Str ''Python 3.11 + FastAPI''),
      (''buildTime'', Str ''2024-01-01T00:00:00Z''),
      (''gitSha'', Str ''abc123''),
      (''buildVersion'', Str ''1.2.3''),
      (''dependencies'', List
         [Dict [(''name'', Str ''fastapi''), (''version'', Str ''0.115.6'')],
          Dict [(''name'', Str ''uvicorn''), (''version'', Str ''0.32.1'')],
          Dict [(''name'', Str ''httpx''), (''version'', Str ''0.27.2'')]])]"
  by (simp add: build_payload_fst underscore_env_eq dependencies_def)

text \<open>
  C7, as stated: when \<open>BUILD_TIME\<close> is set to a non-empty string the system clock is
  not read. The code reads it: the fallback is an argument of the call of \<open>_env\<close>, and
  is computed before \<open>_env\<close> looks the variable up. With \<open>BUILD_TIME\<close> set and nothing
  read before, the log after the call starts with the read of the clock.
\<close>

theorem build_payload_clock_read_counterexample:
  "environ \<lparr>environ = [''BUILD_TIME'' \<mapsto> ''2024-01-01T00:00:00Z''],
            clock = sample_clock, trace = []\<rparr> ''BUILD_TIME'' =
     Some ''2024-01-01T00:00:00Z'' \<and>
   ''2024-01-01T00:00:00Z'' \<noteq> [] \<and>
   trace (snd (build_payload
     \<lparr>environ = [''BUILD_TIME'' \<mapsto> ''2024-01-01T00:00:00Z''],
      clock = sample_clock, trace = []\<rparr>)) =
     [Now, Getenv ''BUILD_TIME'', Getenv ''GIT_SHA'', Getenv ''SERVICE_VERSION''] \<and>
   ticks \<lparr>environ = [''BUILD_TIME'' \<mapsto> ''2024-01-01T00:00:00Z''],
          clock = sample_clock, trace = []\<rparr> = 0 \<and>
   ticks (snd (build_payload
     \<lparr>environ = [''BUILD_TIME'' \<mapsto> ''2024-01-01T00:00:00Z''],
      clock = sample_clock, trace = []\<rparr>)) = 1"
  by (simp add: build_payload_def now_utc_def underscore_env_def getenv_def ticks_def)

text \<open>
  C7, as the code has it. A call changes nothing of the world but the log, to which it
  adds one read of the clock and then the reads of \<open>BUILD_TIME\<close>, \<open>GIT_SHA\<close> and
  \<open>SERVICE_VERSION\<close>, in this order: the clock is read once on every call. When
  \<open>BUILD_TIME\<close> is set to a non-empty string the reading is not used: the record is the
  same whatever the clock shows.
\<close>

theorem build_payload_effects:
  "snd (build_payload w) =
     w\<lparr>trace := trace w @
       [Now, Getenv ''BUILD_TIME'', Getenv ''GIT_SHA'', Getenv ''SERVICE_VERSION'']\<rparr> \<and>
   ticks (snd (build_payload w)) = Suc (ticks w) \<and>
   (\<forall>b c. environ w ''BUILD_TIME'' = Some b \<and> b \<noteq> [] \<longrightarrow>
      fst (build_payload (w\<lparr>clock := c\<rparr>)) = fst (build_payload w))"
  by (simp add: build_payload_snd ticks_def build_payload_fst underscore_env_eq)

theorem build_payload_effects_witness:
  "environ \<lparr>environ = [''BUILD_TIME'' \<mapsto> ''2024-01-01T00:00:00Z''],
            clock = sample_clock, trace = [Getenv ''HOME'']\<rparr> ''BUILD_TIME'' =
     Some ''2024-01-01T00:00:00Z'' \<and>
   ''2024-01-01T00:00:00Z'' \<noteq> [] \<and>
   snd (build_payload
     \<lparr>environ = [''BUILD_TIME'' \<mapsto> ''2024-01-01T00:00:00Z''],
      clock = sample_clock, trace = [Getenv ''HOME'']\<rparr>) =
     \<lparr>environ = [''BUILD_TIME'' \<mapsto> ''2024-01-01T00:00:00Z''],
      clock = sample_clock,
      trace = [Getenv ''HOME'', Now, Getenv ''BUILD_TIME'', Getenv ''GIT_SHA'',
               Getenv ''SERVICE_VERSION'']\<rparr> \<and>
   fst (build_payload
     \<lparr>environ = [''BUILD_TIME'' \<mapsto> ''2024-01-01T00:00:00Z''],
      clock = (\<lambda>n. sample_clock (n + 30)), trace = [Getenv ''HOME'']\<rparr>) =
   fst (build_payload
     \<lparr>environ = [''BUILD_TIME'' \<mapsto> ''2024-01-01T00:00:00Z''],
      clock = sample_clock, trace = [Getenv ''HOME'']\<rparr>)"
proof -
  have "fst (build_payload
      (\<lparr>environ = [''BUILD_TIME'' \<mapsto> ''2024-01-01T00:00:00Z''],
        clock = sample_clock, trace = [Getenv ''HOME'']\<rparr>
       \<lparr>clock := \<lambda>n. sample_clock (n + 30)\<rparr>)) =
    fst (build_payload
      \<lparr>environ = [''BUILD_TIME'' \<mapsto> ''2024-01-01T00:00:00Z''],
       clock = sample_clock, trace = [Getenv ''HOME'']\<rparr>)"
    and "snd (build_payload
      \<lparr>environ = [''BUILD_TIME'' \<mapsto> ''2024-01-01T00:00:00Z''],
       clock = sample_clock, trace = [Getenv ''HOME'']\<rparr>) =
      \<lparr>environ = [''BUILD_TIME'' \<mapsto> ''2024-01-01T00:00:00Z''],
       clock = sample_clock, trace = [Getenv ''HOME'']\<rparr>
      \<lparr>trace := trace \<lparr>environ = [''BUILD_TIME'' \<mapsto> ''2024-01-01T00:00:00Z''],
         clock = sample_clock, trace = [Getenv ''HOME'']\<rparr> @
         [Now, Getenv ''BUILD_TIME'', Getenv ''GIT_SHA'', Getenv ''SERVICE_VERSION'']\<rparr>"
    using build_payload_effects
      [of "\<lparr>environ = [''BUILD_TIME'' \<mapsto> ''2024-01-01T00:00:00Z''],
            clock = sample_clock, trace = [Getenv ''HOME'']\<rparr>"]
    by simp_all
  then show ?thesis by simp
qed

text \<open>
  C8. \<open>build_payload\<close> returns in every world: no statement of the two functions can
  raise, so the embedding has no error result, and the record it returns has the
  documented shape whatever the environment and the clock hold. The values of the
  three variables are not parsed or checked: any non-empty string is passed through
  as it is.
\<close>

theorem build_payload_total:
  "\<exists>p w'. build_payload w = (p, w') \<and> is_build_info p \<and>
     (\<forall>s. environ w ''BUILD_TIME'' = Some s \<and> s \<noteq> [] \<longrightarrow> item p ''buildTime'' = Some (Str s)) \<and>
     (\<forall>s. environ w ''GIT_SHA'' = Some s \<and> s \<noteq> [] \<longrightarrow> item p ''gitSha'' = Some (Str s)) \<and>
     (\<forall>s. environ w ''SERVICE_VERSION'' = Some s \<and> s \<noteq> [] \<longrightarrow>
        item p ''buildVersion'' = Some (Str s))"
proof -
  have shape: "is_build_info (fst (build_payload w))"
    by (simp add: build_payload_fst is_build_info_def dependencies_def is_dependency_def)
  have "build_payload w = (fst (build_payload w), snd (build_payload w))"
    by simp
  with shape show ?thesis
    using build_time_item[of w] git_sha_item[of w] build_version_item[of w]
    by (intro exI[of _ "fst (build_payload w)"] exI[of _ "snd (build_payload w)"]) simp
qed

theorem build_payload_total_witness:
  "environ \<lparr>environ = [''BUILD_TIME'' \<mapsto> ''not a date'', ''SERVICE_VERSION'' \<mapsto> ''?!''],
            clock = sample_clock, trace = []\<rparr> ''BUILD_TIME'' = Some ''not a date'' \<and>
   ''not a date'' \<noteq> [] \<and>
   environ \<lparr>environ = [''BUILD_TIME'' \<mapsto> ''not a date'', ''SERVICE_VERSION'' \<mapsto> ''?!''],
            clock = sample_clock, trace = []\<rparr> ''SERVICE_VERSION'' = Some ''?!'' \<and>
   ''?!'' \<noteq> [] \<and>
   is_build_info (fst (build_payload
     \<lparr>environ = [''BUILD_TIME'' \<mapsto> ''not a date'', ''SERVICE_VERSION'' \<mapsto> ''?!''],
      clock = sample_clock, trace = []\<rparr>)) \<and>
   item (fst (build_payload
     \<lparr>environ = [''BUILD_TIME'' \<mapsto> ''not a date'', ''SERVICE_VERSION'' \<mapsto> ''?!''],
      clock = sample_clock, trace = []\<rparr>)) ''buildTime'' = Some (Str ''not a date'') \<and>
   item (fst (build_payload
     \<lparr>environ = [''BUILD_TIME'' \<mapsto> ''not a date'', ''SERVICE_VERSION'' \<mapsto> ''?!''],
      clock = sample_clock, trace = []\<rparr>)) ''buildVersion'' = Some (Str ''?!'')"
  using build_payload_total
    [of "\<lparr>environ = [''BUILD_TIME'' \<mapsto> ''not a date'', ''SERVICE_VERSION'' \<mapsto> ''?!''],
          clock = sample_clock, trace = []\<rparr>"]
  by auto

text \<open>
  C9. \<open>_env\<close> returns the fallback exactly when the variable is unset or the empty
  string: in those two cases the result is the fallback, and any other value is
  returned as it is. A value of one space is such a value.
\<close>

theorem underscore_env_fallback_iff:
  "(environ w key = None \<or> environ w key = Some [] \<longrightarrow>
      fst (underscore_env key fallback w) = fallback) \<and>
   (\<forall>s. environ w key = Some s \<and> s \<noteq> [] \<longrightarrow> fst (underscore_env key fallback w) = s) \<and>
   (environ w key = Some '' '' \<longrightarrow> fst (underscore_env key fallback w) = '' '')"
  by (auto simp add: underscore_env_eq)

theorem underscore_env_fallback_iff_witness:
  "environ \<lparr>environ = [''GIT_SHA'' \<mapsto> '' '', ''BUILD_TIME'' \<mapsto> []],
            clock = sample_clock, trace = []\<rparr> ''GIT_SHA'' = Some '' '' \<and>
   '' '' \<noteq> [] \<and>
   fst (underscore_env ''GIT_SHA'' ''dev-snapshot''
     \<lparr>environ = [''GIT_SHA'' \<mapsto> '' '', ''BUILD_TIME'' \<mapsto> []],
      clock = sample_clock, trace = []\<rparr>) = '' '' \<and>
   environ \<lparr>environ = [''GIT_SHA'' \<mapsto> '' '', ''BUILD_TIME'' \<mapsto> []],
            clock = sample_clock, trace = []\<rparr> ''BUILD_TIME'' = Some [] \<and>
   fst (underscore_env ''BUILD_TIME'' ''now''
     \<lparr>environ = [''GIT_SHA'' \<mapsto> '' '', ''BUILD_TIME'' \<mapsto> []],
      clock = sample_clock, trace = []\<rparr>) = ''now'' \<and>
   environ \<lparr>environ = [''GIT_SHA'' \<mapsto> '' '', ''BUILD_TIME'' \<mapsto> []],
            clock = sample_clock, trace = []\<rparr> ''SERVICE_VERSION'' = None \<and>
   fst (underscore_env ''SERVICE_VERSION'' ''0.0.0''
     \<lparr>environ = [''GIT_SHA'' \<mapsto> '' '', ''BUILD_TIME'' \<mapsto> []],
      clock = sample_clock, trace = []\<rparr>) = ''0.0.0''"
  using
    underscore_env_fallback_iff
      [of "\<lparr>environ = [''GIT_SHA'' \<mapsto> '' '', ''BUILD_TIME'' \<mapsto> []],
            clock = sample_clock, trace = []\<rparr>" "''GIT_SHA''" "''dev-snapshot''"]
    underscore_env_fallback_iff
      [of "\<lparr>environ = [''GIT_SHA'' \<mapsto> '' '', ''BUILD_TIME'' \<mapsto> []],
            clock = sample_clock, trace = []\<rparr>" "''BUILD_TIME''" "''now''"]
    underscore_env_fallback_iff
      [of "\<lparr>environ = [''GIT_SHA'' \<mapsto> '' '', ''BUILD_TIME'' \<mapsto> []],
            clock = sample_clock, trace = []\<rparr>" "''SERVICE_VERSION''" "''0.0.0''"]
  by simp

text \<open>
  C10. The record depends on the environment through \<open>BUILD_TIME\<close>, \<open>GIT_SHA\<close> and
  \<open>SERVICE_VERSION\<close> only: two worlds that agree on these three variables and on the
  clock's reading give equal records.
\<close>

theorem build_payload_three_variables:
  assumes "environ w1 ''BUILD_TIME'' = environ w2 ''BUILD_TIME''"
    and "environ w1 ''GIT_SHA'' = environ w2 ''GIT_SHA''"
    and "environ w1 ''SERVICE_VERSION'' = environ w2 ''SERVICE_VERSION''"
    and "clock w1 (ticks w1) = clock w2 (ticks w2)"
  shows "fst (build_payload w1) = fst (build_payload w2)"
  using assms by (simp add: build_payload_fst underscore_env_eq)

theorem build_payload_three_variables_witness:
  "environ \<lparr>environ = [''GIT_SHA'' \<mapsto> ''abc123'', ''HOME'' \<mapsto> ''/root''],
            clock = sample_clock, trace = []\<rparr> ''BUILD_TIME'' =
   environ \<lparr>environ = [''GIT_SHA'' \<mapsto> ''abc123'', ''PORT'' \<mapsto> ''8000''],
            clock = sample_clock, trace = []\<rparr> ''BUILD_TIME'' \<and>
   environ \<lparr>environ = [''GIT_SHA'' \<mapsto> ''abc123'', ''HOME'' \<mapsto> ''/root''],
            clock = sample_clock, trace = []\<rparr> ''GIT_SHA'' =
   environ \<lparr>environ = [''GIT_SHA'' \<mapsto> ''abc123'', ''PORT'' \<mapsto> ''8000''],
            clock = sample_clock, trace = []\<rparr> ''GIT_SHA'' \<and>
   environ \<lparr>environ = [''GIT_SHA'' \<mapsto> ''abc123'', ''HOME'' \<mapsto> ''/root''],
            clock = sample_clock, trace = []\<rparr> ''SERVICE_VERSION'' =
   environ \<lparr>environ = [''GIT_SHA'' \<mapsto> ''abc123'', ''PORT'' \<mapsto> ''8000''],
            clock = sample_clock, trace = []\<rparr> ''SERVICE_VERSION'' \<and>
   environ \<lparr>environ = [''GIT_SHA'' \<mapsto> ''abc123'', ''HOME'' \<mapsto> ''/root''],
            clock = sample_clock, trace = []\<rparr> ''HOME'' \<noteq>
   environ \<lparr>environ = [''GIT_SHA'' \<mapsto> ''abc123'', ''PORT'' \<mapsto> ''8000''],
            clock = sample_clock, trace = []\<rparr> ''HOME'' \<and>
   fst (build_payload
     \<lparr>environ = [''GIT_SHA'' \<mapsto> ''abc123'', ''HOME'' \<mapsto> ''/root''],
      clock = sample_clock, trace = []\<rparr>) =
   fst (build_payload
     \<lparr>environ = [''GIT_SHA'' \<mapsto> ''abc123'', ''PORT'' \<mapsto> ''8000''],
      clock = sample_clock, trace = []\<rparr>)"
  using build_payload_three_variables
    [of "\<lparr>environ = [''GIT_SHA'' \<mapsto> ''abc123'', ''HOME'' \<mapsto> ''/root''],
          clock = sample_clock, trace = []\<rparr>"
        "\<lparr>environ = [''GIT_SHA'' \<mapsto> ''abc123'', ''PORT'' \<mapsto> ''8000''],
          clock = sample_clock, trace = []\<rparr>"]
  by (simp add: ticks_def)

end
